theory Spec2Isabelle
  imports Complex_Main
begin

section \<open>Motion mapping of the joystick teleoperation scripts\<close>

text \<open>
  The two wheel-command mappers of the repository are embedded here:
  \<^item> \<open>translate_speed\<close> of \<^verbatim>\<open>Scripts/rc-wireless-opencv.py\<close> (arcade drive);
  \<^item> \<open>_get_motor_thrust\<close> of \<^verbatim>\<open>test-connection.py\<close> (throttle and steering angle).

  Python floats are modelled as the real numbers: every arithmetic operation is exact,
  there is no rounding, no infinity and no NaN. The theorems below are therefore
  limited to properties that do not hinge on rounding: bounds that monotone rounding
  preserves, values that are computed exactly, and the control flow. Properties that
  the last bit of a double decides (whether \<open>v_a\<close> can pass the throttle by one unit in
  the last place, whether \<open>theta\<close> and \<open>theta + 360\<close> give bit-identical results) are
  not stated in this model. The only operations of the two
  functions that can raise in Python are \<^verbatim>\<open>%\<close> and \<^verbatim>\<open>/\<close> (ZeroDivisionError); the checked
  variants at the end of the definitions keep that branch as an error value.
\<close>

subsection \<open>Python arithmetic\<close>

text \<open>
  Python's \<^verbatim>\<open>x % m\<close> on floats takes the sign of the divisor: it is
  \<open>x - m * floor (x / m)\<close>. Both uses in the source have a positive constant divisor.
\<close>

definition py_fmod :: "real \<Rightarrow> real \<Rightarrow> real" where
  "py_fmod x m = x - m * of_int \<lfloor>x / m\<rfloor>"

subsection \<open>Arcade drive: \<open>translate_speed\<close>\<close>

text \<open>Module constant \<^verbatim>\<open>max_wheel_speed = 150.0\<close>.\<close>

definition max_wheel_speed :: real where
  "max_wheel_speed = 150"

text \<open>
  \<^verbatim>\<open>
  def translate_speed(fwd, turn):
      if fwd == 0.0 and turn == 0.0:
          left_wheel_speed = 0.0
          right_wheel_speed = 0.0
      elif fwd == 0.0:
          left_wheel_speed = turn*max_wheel_speed
          right_wheel_speed = -turn*max_wheel_speed
      elif turn == 0.0:
          left_wheel_speed = fwd*max_wheel_speed
          right_wheel_speed = fwd*max_wheel_speed
      else:
          avg_speed = fwd*max_wheel_speed
          turn_speed = turn*max_wheel_speed/2
          left_wheel_speed = avg_speed + turn_speed
          right_wheel_speed = avg_speed - turn_speed
      return float(left_wheel_speed), float(right_wheel_speed)
  \<close>
\<close>

definition translate_speed :: "real \<Rightarrow> real \<Rightarrow> real \<times> real" where
  "translate_speed fwd turn =
     (if fwd = 0 \<and> turn = 0 then (0, 0)
      else if fwd = 0 then (turn * max_wheel_speed, - turn * max_wheel_speed)
      else if turn = 0 then (fwd * max_wheel_speed, fwd * max_wheel_speed)
      else (let avg_speed = fwd * max_wheel_speed;
                turn_speed = turn * max_wheel_speed / 2
            in (avg_speed + turn_speed, avg_speed - turn_speed)))"

text \<open>
  The four-case reference algorithm as the specification words it, with the maximum
  speed as a parameter: nothing moves at \<open>(0, 0)\<close>; pure rotation when only \<open>turn\<close> is
  nonzero; pure translation when only \<open>forward\<close> is nonzero; otherwise the blend of
  \<open>avg = forward * max_speed\<close> and \<open>turn_component = turn * max_speed / 2\<close>.
\<close>

definition ArcadeDriveMapper :: "real \<Rightarrow> real \<Rightarrow> real \<Rightarrow> real \<times> real" where
  "ArcadeDriveMapper forward turn max_speed =
     (if forward = 0 \<and> turn = 0 then (0, 0)
      else if forward = 0 \<and> turn \<noteq> 0 then (turn * max_speed, - (turn * max_speed))
      else if turn = 0 \<and> forward \<noteq> 0 then (forward * max_speed, forward * max_speed)
      else (forward * max_speed + turn * max_speed / 2,
            forward * max_speed - turn * max_speed / 2))"

subsection \<open>Throttle and steering angle: \<open>_get_motor_thrust\<close>\<close>

text \<open>
  \<^verbatim>\<open>
  def _get_motor_thrust(r, theta):
      # normalize theta to [-180, 180)
      theta = ((theta + 180.0) % 360.0) - 180.0
      # normalize r to [0, 100]
      r = min(max(0.0, r), 100.0)
      v_a = r * (45.0 - theta % 90.0) / 45.0
      v_b = min(100.0, 2.0 * r + v_a, 2.0 * r - v_a)
      if theta < -90.0:
          return -v_b, -v_a
      elif theta < 0:
          return -v_a, v_b
      elif theta < 90.0:
          return v_b, v_a
      else:
          return v_a, -v_b
  \<close>
  Each assignment of the body is a definition of its own, so that the claims can name
  the intermediate values; \<open>get_motor_thrust\<close> chains them in the source's order.
\<close>

definition normalize_theta :: "real \<Rightarrow> real" where
  "normalize_theta theta = py_fmod (theta + 180) 360 - 180"

definition normalize_r :: "real \<Rightarrow> real" where
  "normalize_r r = min (max 0 r) 100"

definition thrust_v_a :: "real \<Rightarrow> real \<Rightarrow> real" where
  "thrust_v_a r theta = r * (45 - py_fmod theta 90) / 45"

definition thrust_v_b :: "real \<Rightarrow> real \<Rightarrow> real" where
  "thrust_v_b r v_a = min 100 (min (2 * r + v_a) (2 * r - v_a))"

definition get_motor_thrust :: "real \<Rightarrow> real \<Rightarrow> real \<times> real" where
  "get_motor_thrust r0 theta0 =
     (let theta = normalize_theta theta0;
          r = normalize_r r0;
          v_a = thrust_v_a r theta;
          v_b = thrust_v_b r v_a
      in if theta < - 90 then (- v_b, - v_a)
         else if theta < 0 then (- v_a, v_b)
         else if theta < 90 then (v_b, v_a)
         else (v_a, - v_b))"

subsection \<open>The same functions with Python's exceptions as values\<close>

text \<open>
  \<^verbatim>\<open>x % m\<close> and \<^verbatim>\<open>x / m\<close> raise ZeroDivisionError when \<open>m\<close> is zero. No other
  operation of the two functions can raise on floats (comparison, \<^verbatim>\<open>min\<close>, \<^verbatim>\<open>max\<close>,
  \<^verbatim>\<open>+\<close>, \<^verbatim>\<open>-\<close>, \<^verbatim>\<open>*\<close>, \<^verbatim>\<open>float\<close> of a float), and neither function has a
  \<^verbatim>\<open>raise\<close> statement. The checked variants below are the same bodies, statement by
  statement, with these two operations returning \<open>Inl ZeroDivisionError\<close> on a zero
  divisor and an exception ending the call.
\<close>

datatype py_error = ZeroDivisionError

definition py_mod :: "real \<Rightarrow> real \<Rightarrow> py_error + real" where
  "py_mod x m = (if m = 0 then Inl ZeroDivisionError else Inr (py_fmod x m))"

definition py_truediv :: "real \<Rightarrow> real \<Rightarrow> py_error + real" where
  "py_truediv x m = (if m = 0 then Inl ZeroDivisionError else Inr (x / m))"

definition bind_err :: "py_error + 'a \<Rightarrow> ('a \<Rightarrow> py_error + 'b) \<Rightarrow> py_error + 'b" where
  "bind_err m f = (case m of Inl e \<Rightarrow> Inl e | Inr v \<Rightarrow> f v)"

definition translate_speed_chk :: "real \<Rightarrow> real \<Rightarrow> py_error + real \<times> real" where
  "translate_speed_chk fwd turn =
     (if fwd = 0 \<and> turn = 0 then Inr (0, 0)
      else if fwd = 0 then Inr (turn * max_wheel_speed, - turn * max_wheel_speed)
      else if turn = 0 then Inr (fwd * max_wheel_speed, fwd * max_wheel_speed)
      else (let avg_speed = fwd * max_wheel_speed
            in bind_err (py_truediv (turn * max_wheel_speed) 2) (\<lambda>turn_speed.
                 Inr (avg_speed + turn_speed, avg_speed - turn_speed))))"

definition get_motor_thrust_chk :: "real \<Rightarrow> real \<Rightarrow> py_error + real \<times> real" where
  "get_motor_thrust_chk r0 theta0 =
     bind_err (py_mod (theta0 + 180) 360) (\<lambda>m360.
       let theta = m360 - 180;
           r = min (max 0 r0) 100
       in bind_err (py_mod theta 90) (\<lambda>m90.
            bind_err (py_truediv (r * (45 - m90)) 45) (\<lambda>v_a.
              let v_b = min 100 (min (2 * r + v_a) (2 * r - v_a))
              in Inr (if theta < - 90 then (- v_b, - v_a)
                      else if theta < 0 then (- v_a, v_b)
                      else if theta < 90 then (v_b, v_a)
                      else (v_a, - v_b)))))"

section \<open>Properties\<close>

subsection \<open>Python's modulo\<close>

lemma py_fmod_nonneg: "0 < m \<Longrightarrow> 0 \<le> py_fmod x m"
proof -
  assume m: "0 < m"
  have "of_int \<lfloor>x / m\<rfloor> * m \<le> x"
    using m of_int_floor_le [of "x / m"] by (simp only: pos_le_divide_eq)
  then show ?thesis by (simp add: py_fmod_def mult.commute)
qed

lemma py_fmod_le: "0 < m \<Longrightarrow> py_fmod x m \<le> m"
proof -
  assume m: "0 < m"
  have "x / m \<le> of_int \<lfloor>x / m\<rfloor> + 1" by linarith
  then have "x \<le> (of_int \<lfloor>x / m\<rfloor> + 1) * m"
    using m by (simp only: pos_divide_le_eq)
  then show ?thesis by (simp add: py_fmod_def algebra_simps)
qed

subsection \<open>The steps of \<open>_get_motor_thrust\<close>\<close>

lemma normalize_r_range: "0 \<le> normalize_r r \<and> normalize_r r \<le> 100"
  by (simp add: normalize_r_def)

lemma thrust_v_a_bound: "0 \<le> r \<Longrightarrow> r \<le> 100 \<Longrightarrow> \<bar>thrust_v_a r theta\<bar> \<le> 100"
proof -
  assume r: "0 \<le> r" and r100: "r \<le> 100"
  have "0 \<le> py_fmod theta 90" "py_fmod theta 90 \<le> 90"
    by (simp_all add: py_fmod_nonneg py_fmod_le)
  then have "\<bar>45 - py_fmod theta 90\<bar> \<le> 45" by linarith
  then have "r * \<bar>45 - py_fmod theta 90\<bar> \<le> r * 45"
    using r by (rule mult_left_mono)
  then have "\<bar>thrust_v_a r theta\<bar> \<le> r"
    using r by (simp add: thrust_v_a_def abs_mult)
  then show ?thesis using r100 by linarith
qed

lemma thrust_v_b_bound:
  "0 \<le> r \<Longrightarrow> \<bar>v_a\<bar> \<le> 100 \<Longrightarrow> \<bar>thrust_v_b r v_a\<bar> \<le> 100"
  by (simp add: thrust_v_b_def)

lemma get_motor_thrust_bounds:
  "\<bar>fst (get_motor_thrust r theta)\<bar> \<le> 100 \<and> \<bar>snd (get_motor_thrust r theta)\<bar> \<le> 100"
proof -
  let ?r = "normalize_r r"
  let ?v_a = "thrust_v_a ?r (normalize_theta theta)"
  have r: "0 \<le> ?r" "?r \<le> 100"
    using normalize_r_range [of r] by simp_all
  then have a: "\<bar>?v_a\<bar> \<le> 100" by (rule thrust_v_a_bound)
  with r have b: "\<bar>thrust_v_b ?r ?v_a\<bar> \<le> 100" by (intro thrust_v_b_bound)
  from a b show ?thesis
    by (simp add: get_motor_thrust_def Let_def)
qed

section \<open>The claims\<close>

subsection \<open>Arcade drive\<close>

text \<open>
  Claim C1 says that for \<open>forward\<close> and \<open>turn\<close> in \<open>[-1, 1]\<close> both wheel speeds of
  \<open>translate_speed\<close> stay within \<open>[-max_wheel_speed, max_wheel_speed]\<close>, as the comment
  above the function promises. The blended branch adds half of the turn speed to the
  full forward speed without clamping: at full deflection of both axes the left wheel
  is commanded to 225, above \<open>max_wheel_speed = 150\<close>.
\<close>

theorem translate_speed_exceeds_max_wheel_speed:
  "translate_speed 1 1 = (225, 75) \<and> max_wheel_speed < fst (translate_speed 1 1)"
  by (simp add: translate_speed_def max_wheel_speed_def)

text \<open>
  Claim C4: \<open>translate_speed\<close> computes the four-case reference algorithm at
  \<open>max_speed = 150\<close>: \<open>(0, 0)\<close> when both inputs are zero, pure rotation when only \<open>turn\<close>
  is nonzero, pure translation when only \<open>forward\<close> is nonzero, the blend otherwise; in
  particular full deflection of one axis drives both wheels at 150 in magnitude.
\<close>

theorem translate_speed_four_cases:
  "translate_speed fwd turn = ArcadeDriveMapper fwd turn 150
   \<and> translate_speed 1 0 = (150, 150)
   \<and> translate_speed (- 1) 0 = (- 150, - 150)
   \<and> translate_speed 0 1 = (150, - 150)
   \<and> translate_speed 0 (- 1) = (- 150, 150)"
  by (simp add: translate_speed_def ArcadeDriveMapper_def max_wheel_speed_def Let_def)

subsection \<open>Throttle and steering angle\<close>

text \<open>
  Claim C2: for every throttle in \<open>[0, 100]\<close> and every steering angle, both components
  of \<open>_get_motor_thrust\<close> lie in \<open>[-100, 100]\<close>.
\<close>

theorem get_motor_thrust_within_100:
  "0 \<le> throttle \<Longrightarrow> throttle \<le> 100 \<Longrightarrow>
     - 100 \<le> fst (get_motor_thrust throttle theta)
   \<and> fst (get_motor_thrust throttle theta) \<le> 100
   \<and> - 100 \<le> snd (get_motor_thrust throttle theta)
   \<and> snd (get_motor_thrust throttle theta) \<le> 100"
  using get_motor_thrust_bounds [of throttle theta] by linarith

theorem get_motor_thrust_within_100_witness:
  "(0::real) \<le> 80 \<and> (80::real) \<le> 100
   \<and> get_motor_thrust 80 200 = (- 100, - 400 / 9)
   \<and> - 100 \<le> fst (get_motor_thrust 80 200) \<and> fst (get_motor_thrust 80 200) \<le> 100
   \<and> - 100 \<le> snd (get_motor_thrust 80 200) \<and> snd (get_motor_thrust 80 200) \<le> 100"
  using get_motor_thrust_within_100 [of 80 200]
  by (simp add: get_motor_thrust_def normalize_theta_def normalize_r_def thrust_v_a_def
      thrust_v_b_def py_fmod_def Let_def)

text \<open>
  Claim C3, as amended: the normalisation \<open>theta = ((theta + 180) mod 360) - 180\<close> maps
  every steering angle into the closed interval \<open>[-180, 180]\<close>: the lower end is
  attained, so the \<open>theta\<close> used by the later steps satisfies \<open>-180 \<le> theta \<le> 180\<close>.
\<close>

theorem normalize_theta_range:
  "normalize_theta theta = py_fmod (theta + 180) 360 - 180
   \<and> - 180 \<le> normalize_theta theta \<and> normalize_theta theta \<le> 180"
  using py_fmod_nonneg [of 360 "theta + 180"] py_fmod_le [of 360 "theta + 180"]
  by (simp add: normalize_theta_def)

text \<open>
  The lower end of the interval of claim C3 as stated, \<open>(-180, 180]\<close>, is open, but a
  steering angle of 180 degrees is normalised to \<open>-180\<close>: \<open>(180 + 180) mod 360 = 0\<close>.
\<close>

theorem normalize_theta_half_open_counterexample:
  "\<not> (- 180 < normalize_theta 180 \<and> normalize_theta 180 \<le> 180)"
  by (simp add: normalize_theta_def py_fmod_def)

text \<open>
  Claim C6: zero input gives exactly zero output: \<open>translate_speed(0, 0) = (0, 0)\<close>, and
  \<open>_get_motor_thrust(0, theta) = (0, 0)\<close> for every steering angle.
\<close>

theorem zero_input_zero_output:
  "translate_speed 0 0 = (0, 0) \<and> get_motor_thrust 0 theta = (0, 0)"
  by (simp add: translate_speed_def get_motor_thrust_def normalize_r_def thrust_v_a_def
      thrust_v_b_def Let_def)

text \<open>
  Claim C7: steering mirror symmetry at the representative angles 30, 60, 120 and 150:
  for every throttle, negating the angle swaps the left and the right thrust.
\<close>

theorem get_motor_thrust_mirror:
  "get_motor_thrust t (- 30) = prod.swap (get_motor_thrust t 30)
   \<and> get_motor_thrust t (- 60) = prod.swap (get_motor_thrust t 60)
   \<and> get_motor_thrust t (- 120) = prod.swap (get_motor_thrust t 120)
   \<and> get_motor_thrust t (- 150) = prod.swap (get_motor_thrust t 150)"
  by (simp add: get_motor_thrust_def normalize_theta_def py_fmod_def thrust_v_a_def
      thrust_v_b_def Let_def min.commute min.left_commute)

subsection \<open>Totality\<close>

text \<open>
  Claim C9: both functions return a pair for every real input and no error branch is
  reachable: the checked variants, in which \<^verbatim>\<open>%\<close> and \<^verbatim>\<open>/\<close> can fail, always return
  \<open>Inr\<close> of the value of the plain functions. The divisors are the nonzero constants
  360, 90, 45 and 2; the throttle is clamped into \<open>[0, 100]\<close> and the angle reduced
  modulo 360 before either is used.
\<close>

theorem no_error_branch:
  "translate_speed_chk fwd turn = Inr (translate_speed fwd turn)
   \<and> get_motor_thrust_chk r theta = Inr (get_motor_thrust r theta)
   \<and> 0 \<le> normalize_r r \<and> normalize_r r \<le> 100"
  by (simp add: translate_speed_chk_def translate_speed_def get_motor_thrust_chk_def
      get_motor_thrust_def py_mod_def py_truediv_def bind_err_def normalize_theta_def
      normalize_r_def thrust_v_a_def thrust_v_b_def Let_def)

end
